theory Spec2Isabelle
  imports Complex_Main "HOL-Library.Sublist"
begin

section \<open>Values, exceptions and the observable trace\<close>

text \<open>
  The module \<^verbatim>\<open>plots.py\<close> is glue between a model container and plotting and
  statistics libraries.  Its embedding keeps the Python control flow (dictionary
  look-ups, gates, loops, \<^verbatim>\<open>try/except\<close>, raised exceptions) explicit and
  treats every library call as a call to the environment, recorded in a trace.

  Python values are the type \<open>pyval\<close>.  Iterables a library returns are
  represented by the list of their elements (\<open>PyList\<close>, \<open>PyTuple\<close>),
  one-dimensional float arrays by \<open>PyArr\<close> over the reals (rounding is not
  modelled), a named member of a module or class (\<^verbatim>\<open>ModelType.classification\<close>,
  \<^verbatim>\<open>plt.hist\<close>, \<^verbatim>\<open>math.pi\<close>) by \<open>PyGlobal\<close> with its qualified name, every
  other library object (estimators, figures, axes, data frames, splitters) by an
  opaque handle \<open>PyObj\<close>.
\<close>

datatype pyval =
    PyNone
  | PyBool bool
  | PyInt int
  | PyFloat real
  | PyStr string
  | PyList "pyval list"
  | PyTuple "pyval list"
  | PySlice pyval pyval pyval
  | PyArr "real list"
  | PyGlobal string
  | PyObj nat

datatype exn =
    KeyError pyval
  | TypeError string
  | ValueError "pyval list"
  | NameError string
  | AttributeError string
  | IndexError string
  | ZeroDivisionError
  | LibraryError string

text \<open>
  An event is a call of \<^verbatim>\<open>logger.info\<close> (message and arguments) or a call into a
  library: its name, positional arguments, keyword arguments, and what came back.
\<close>

datatype event =
    Log pyval "pyval list"
  | Call string "pyval list" "(string \<times> pyval) list" "exn + pyval"

text \<open>
  The environment answers library calls; the answer may depend on everything that
  happened before (figures, fitted estimators and the file system are stateful).
  It also carries the constants of module \<^verbatim>\<open>globs\<close> the specification does not
  fix.
\<close>

record env =
  respond :: "event list \<Rightarrow> string \<Rightarrow> pyval list \<Rightarrow> (string \<times> pyval) list \<Rightarrow> exn + pyval"
  BSEP :: string
  Q1 :: pyval
  Q3 :: pyval

text \<open>
  Modelled from the spec: module \<^verbatim>\<open>globs\<close> is not among the sources.  The
  specification gives the file name as category, \<^verbatim>\<open>"_"\<close>, tag, \<^verbatim>\<open>".png"\<close> and
  the path as \<^verbatim>\<open><base_dir>/<project>/<category>_<tag>.png\<close>, which fixes the two
  separators used by \<^verbatim>\<open>write_plot\<close>.
\<close>

definition USEP :: string where
  "USEP = ''_''"

definition SSEP :: string where
  "SSEP = ''/''"

text \<open>
  Modelled from the spec: module \<^verbatim>\<open>estimators\<close> is not among the sources;
  \<^verbatim>\<open>ModelType.classification\<close> is a member of an enumeration, equal only to itself.
\<close>

definition ModelType_classification :: pyval where
  "ModelType_classification = PyGlobal ''ModelType.classification''"

text \<open>The model container: the attributes this module reads.\<close>

record model =
  specs :: "string \<rightharpoonup> pyval"
  algolist :: "string list"
  estimators :: "string \<rightharpoonup> pyval"
  probas :: "string \<times> string \<rightharpoonup> pyval"
  preds :: "string \<times> string \<rightharpoonup> pyval"
  importances :: "string \<rightharpoonup> pyval"
  X_train :: pyval
  y_train :: pyval
  X_test :: pyval
  y_test :: pyval

section \<open>Computations with effects\<close>

text \<open>
  A computation reads the history so far and returns the events it adds together
  with an exception or a result.  Events emitted before an exception stay emitted.
\<close>

type_synonym 'a act = "event list \<Rightarrow> event list \<times> (exn + 'a)"

definition ret :: "'a \<Rightarrow> 'a act" where
  "ret x = (\<lambda>h. ([], Inr x))"

definition raise :: "exn \<Rightarrow> 'a act" where
  "raise e = (\<lambda>h. ([], Inl e))"

definition lift_res :: "exn + 'a \<Rightarrow> 'a act" where
  "lift_res r = (\<lambda>h. ([], r))"

definition bnd :: "'a act \<Rightarrow> ('a \<Rightarrow> 'b act) \<Rightarrow> 'b act" where
  "bnd m f = (\<lambda>h. case m h of
      (t, Inl e) \<Rightarrow> (t, Inl e)
    | (t, Inr x) \<Rightarrow> (case f x (h @ t) of (t', r) \<Rightarrow> (t @ t', r)))"

definition ign :: "'a act \<Rightarrow> unit act" where
  "ign m = bnd m (\<lambda>_. ret ())"

fun block :: "unit act list \<Rightarrow> unit act" where
  "block [] = ret ()"
| "block (m # ms) = bnd m (\<lambda>_. block ms)"

text \<open>\<^verbatim>\<open>try: m  except: handler\<close> with a bare \<^verbatim>\<open>except\<close>: every exception is caught.\<close>

definition try_except :: "'a act \<Rightarrow> 'a act \<Rightarrow> 'a act" where
  "try_except m handler = (\<lambda>h. case m h of
      (t, Inr x) \<Rightarrow> (t, Inr x)
    | (t, Inl e) \<Rightarrow> (case handler (h @ t) of (t', r) \<Rightarrow> (t @ t', r)))"

text \<open>A \<^verbatim>\<open>for\<close> loop over a list, threading the variables the body reassigns.\<close>

fun for_loop :: "'a list \<Rightarrow> 's \<Rightarrow> ('a \<Rightarrow> 's \<Rightarrow> 's act) \<Rightarrow> 's act" where
  "for_loop [] s body = ret s"
| "for_loop (x # xs) s body = bnd (body x s) (\<lambda>s'. for_loop xs s' body)"

definition for_each :: "'a list \<Rightarrow> ('a \<Rightarrow> unit act) \<Rightarrow> unit act" where
  "for_each xs body = for_loop xs () (\<lambda>x _. body x)"

definition log_info :: "string \<Rightarrow> pyval list \<Rightarrow> unit act" where
  "log_info msg args = (\<lambda>h. ([Log (PyStr msg) args], Inr ()))"

text \<open>\<^verbatim>\<open>logger.info(msg)\<close> with a message computed before the call.\<close>

definition log_msg :: "pyval \<Rightarrow> unit act" where
  "log_msg msg = (\<lambda>h. ([Log msg []], Inr ()))"

definition ext :: "env \<Rightarrow> string \<Rightarrow> pyval list \<Rightarrow> (string \<times> pyval) list \<Rightarrow> pyval act" where
  "ext E f args kw = (\<lambda>h. let r = respond E h f args kw in ([Call f args kw r], r))"

text \<open>
  A method call \<^verbatim>\<open>obj.name(args)\<close>: \<^verbatim>\<open>None\<close> has no such attribute; for every
  other receiver the environment answers, the receiver being the first argument.
\<close>

definition meth :: "env \<Rightarrow> pyval \<Rightarrow> string \<Rightarrow> pyval list \<Rightarrow> (string \<times> pyval) list \<Rightarrow> pyval act" where
  "meth E obj name args kw =
     (if obj = PyNone then raise (AttributeError name)
      else ext E (CHR ''.'' # name) (obj # args) kw)"

section \<open>Python primitives\<close>

definition dict_get :: "('k \<rightharpoonup> pyval) \<Rightarrow> 'k \<Rightarrow> pyval \<Rightarrow> exn + pyval" where
  "dict_get d k shown = (case d k of None \<Rightarrow> Inl (KeyError shown) | Some v \<Rightarrow> Inr v)"

definition specs_get :: "model \<Rightarrow> string \<Rightarrow> pyval act" where
  "specs_get m k = lift_res (dict_get (specs m) k (PyStr k))"

text \<open>\<^verbatim>\<open>sep.join(items)\<close>: every item must be a string.\<close>

fun str_join :: "string \<Rightarrow> pyval list \<Rightarrow> exn + string" where
  "str_join sep [] = Inr []"
| "str_join sep [PyStr s] = Inr s"
| "str_join sep (PyStr s # x # xs) =
     (case str_join sep (x # xs) of Inl e \<Rightarrow> Inl e | Inr r \<Rightarrow> Inr (s @ sep @ r))"
| "str_join sep (_ # xs) = Inl (TypeError ''sequence item: expected str instance'')"

text \<open>\<^verbatim>\<open>sep.join(items)\<close> where every item is a string by its type.\<close>

fun sjoin :: "string \<Rightarrow> string list \<Rightarrow> string" where
  "sjoin sep [] = []"
| "sjoin sep [s] = s"
| "sjoin sep (s # x # xs) = s @ sep @ sjoin sep (x # xs)"

text \<open>
  Truth value of an object in a condition.  An array of more than one element has
  none; an opaque object is true, as Python objects are unless their class says
  otherwise.
\<close>

fun py_truthy :: "pyval \<Rightarrow> exn + bool" where
  "py_truthy PyNone = Inr False"
| "py_truthy (PyBool b) = Inr b"
| "py_truthy (PyInt n) = Inr (n \<noteq> 0)"
| "py_truthy (PyFloat x) = Inr (x \<noteq> 0)"
| "py_truthy (PyStr s) = Inr (s \<noteq> [])"
| "py_truthy (PyList xs) = Inr (xs \<noteq> [])"
| "py_truthy (PyTuple xs) = Inr (xs \<noteq> [])"
| "py_truthy (PySlice a b c) = Inr True"
| "py_truthy (PyArr []) = Inr False"
| "py_truthy (PyArr [x]) = Inr (x \<noteq> 0)"
| "py_truthy (PyArr (x # y # ys)) =
     Inl (ValueError [PyStr ''The truth value of an array with more than one element is ambiguous''])"
| "py_truthy (PyGlobal g) = Inr True"
| "py_truthy (PyObj r) = Inr True"

text \<open>Iteration and tuple unpacking (\<^verbatim>\<open>a, b = v\<close>).\<close>

fun py_iter :: "pyval \<Rightarrow> exn + pyval list" where
  "py_iter (PyList xs) = Inr xs"
| "py_iter (PyTuple xs) = Inr xs"
| "py_iter (PyArr xs) = Inr (map PyFloat xs)"
| "py_iter (PyStr s) = Inr (map (\<lambda>c. PyStr [c]) s)"
| "py_iter _ = Inl (TypeError ''object is not iterable'')"

definition unpack2 :: "pyval \<Rightarrow> exn + pyval \<times> pyval" where
  "unpack2 v = (case py_iter v of
       Inl e \<Rightarrow> Inl e
     | Inr [a, b] \<Rightarrow> Inr (a, b)
     | Inr _ \<Rightarrow> Inl (ValueError [PyStr ''wrong number of values to unpack'']))"

definition unpack3 :: "pyval \<Rightarrow> exn + pyval \<times> pyval \<times> pyval" where
  "unpack3 v = (case py_iter v of
       Inl e \<Rightarrow> Inl e
     | Inr [a, b, c] \<Rightarrow> Inr (a, b, c)
     | Inr _ \<Rightarrow> Inl (ValueError [PyStr ''wrong number of values to unpack'']))"

text \<open>\<^verbatim>\<open>range(n)\<close> as a value.\<close>

definition py_range :: "nat \<Rightarrow> pyval" where
  "py_range n = PyList (map (\<lambda>i. PyInt (int i)) [0..<n])"

text \<open>
  Subscripts, attributes and operators on library objects are answered by the
  environment.
\<close>

definition py_getitem :: "env \<Rightarrow> pyval \<Rightarrow> pyval \<Rightarrow> pyval act" where
  "py_getitem E obj idx = ext E ''operator.getitem'' [obj, idx] []"

definition py_binop :: "env \<Rightarrow> string \<Rightarrow> pyval \<Rightarrow> pyval \<Rightarrow> pyval act" where
  "py_binop E opr a b = ext E opr [a, b] []"

definition attr_get :: "env \<Rightarrow> pyval \<Rightarrow> string \<Rightarrow> pyval act" where
  "attr_get E obj name =
     (if obj = PyNone then raise (AttributeError name)
      else ext E ''getattr'' [obj, PyStr name] [])"

definition attr_set :: "env \<Rightarrow> pyval \<Rightarrow> string \<Rightarrow> pyval \<Rightarrow> unit act" where
  "attr_set E obj name v =
     (if obj = PyNone then raise (AttributeError name)
      else ign (ext E ''setattr'' [obj, PyStr name, v] []))"

text \<open>
  The arithmetic \<^verbatim>\<open>plot_roc_curve\<close> performs on \<^verbatim>\<open>mean_tpr\<close>, which starts as the
  float \<^verbatim>\<open>0.0\<close> and becomes an array with the first \<^verbatim>\<open>+=\<close>.  Operand
  combinations outside floats and one-dimensional arrays are left to the
  environment, and so is an array divided by zero (its entries would not be finite).
\<close>

definition py_iadd :: "env \<Rightarrow> pyval \<Rightarrow> pyval \<Rightarrow> pyval act" where
  "py_iadd E a b =
     (case (a, b) of
        (PyFloat x, PyArr ys) \<Rightarrow> ret (PyArr (map (\<lambda>y. x + y) ys))
      | (PyArr xs, PyArr ys) \<Rightarrow>
          if length xs = length ys then ret (PyArr (map2 (+) xs ys))
          else if length ys = 1 then ret (PyArr (map (\<lambda>x. x + hd ys) xs))
          else raise (ValueError [PyStr ''operands could not be broadcast together''])
      | _ \<Rightarrow> ext E ''operator.iadd'' [a, b] [])"

definition py_setitem :: "env \<Rightarrow> pyval \<Rightarrow> int \<Rightarrow> real \<Rightarrow> pyval act" where
  "py_setitem E a i v =
     (case a of
        PyArr xs \<Rightarrow>
          (let n = int (length xs); j = (if i < 0 then i + n else i)
           in if 0 \<le> j \<and> j < n then ret (PyArr (xs[nat j := v]))
              else raise (IndexError ''index is out of bounds''))
      | PyFloat x \<Rightarrow> raise (TypeError ''float object does not support item assignment'')
      | _ \<Rightarrow> ext E ''operator.setitem'' [a, PyInt i, PyFloat v] [])"

definition py_idiv :: "env \<Rightarrow> pyval \<Rightarrow> pyval \<Rightarrow> pyval act" where
  "py_idiv E a n =
     (case (a, n) of
        (PyArr xs, PyInt k) \<Rightarrow>
          if k \<noteq> 0 then ret (PyArr (map (\<lambda>x. x / real_of_int k) xs))
          else ext E ''operator.idiv'' [a, n] []
      | (PyFloat x, PyInt k) \<Rightarrow>
          if k \<noteq> 0 then ret (PyFloat (x / real_of_int k))
          else raise ZeroDivisionError
      | _ \<Rightarrow> ext E ''operator.idiv'' [a, n] [])"

section \<open>The source functions\<close>

subsection \<open>\<^verbatim>\<open>get_partition_data\<close>\<close>

definition get_partition_data :: "model \<Rightarrow> string \<Rightarrow> exn + pyval \<times> pyval" where
  "get_partition_data m partn =
     (if partn = ''train'' then Inr (X_train m, y_train m)
      else if partn = ''test'' then Inr (X_test m, y_test m)
      else Inl (TypeError ''Partition must be train or test''))"

subsection \<open>\<^verbatim>\<open>write_plot\<close>\<close>

definition write_plot :: "env \<Rightarrow> model \<Rightarrow> string \<Rightarrow> pyval \<Rightarrow> string \<Rightarrow> string \<Rightarrow> unit act" where
  "write_plot E m vizlib plot plot_type tag =
     bnd (specs_get m ''base_dir'') (\<lambda>base_dir.
     bnd (specs_get m ''project'') (\<lambda>project.
     bnd (ret (sjoin [] [plot_type, USEP, tag, ''.png''])) (\<lambda>file_only.
     bnd (lift_res (str_join SSEP [base_dir, project, PyStr file_only])) (\<lambda>file_all.
     bnd (log_info ''Writing plot to %s'' [PyStr file_all]) (\<lambda>_.
       if vizlib = ''matplotlib'' then
         block [ign (ext E ''plt.tight_layout'' [] []),
                ign (ext E ''plt.savefig'' [PyStr file_all] [])]
       else if vizlib = ''seaborn'' then
         ign (meth E plot ''savefig'' [PyStr file_all] [])
       else if vizlib = ''bokeh'' then
         ign (meth E plot ''save'' [PyStr file_all] [])
       else if vizlib = ''plotly'' then
         raise (ValueError [PyStr ''Unsupported data visualization library: %s'', PyStr vizlib])
       else
         raise (ValueError [PyStr ''Unrecognized data visualization library: %s'', PyStr vizlib]))))))"

subsection \<open>\<^verbatim>\<open>plot_calibration\<close>\<close>

text \<open>The body of the loop over \<^verbatim>\<open>model.algolist\<close>.\<close>

definition calibration_algo ::
  "env \<Rightarrow> model \<Rightarrow> string \<Rightarrow> pyval \<Rightarrow> pyval \<Rightarrow> pyval \<Rightarrow> pyval \<Rightarrow> string \<Rightarrow> unit act" where
  "calibration_algo E m partn X y ax1 ax2 algo =
     bnd (log_info ''Calibration for Algorithm: %s'' [PyStr algo]) (\<lambda>_.
     bnd (lift_res (dict_get (estimators m) algo (PyStr algo))) (\<lambda>clf.
     bnd (ext E ''hasattr'' [clf, PyStr ''predict_proba''] []) (\<lambda>has.
     bnd (lift_res (py_truthy has)) (\<lambda>has_predict_proba.
     bnd (if has_predict_proba then
            lift_res (dict_get (probas m) (algo, partn) (PyTuple [PyStr algo, PyStr partn]))
          else
            bnd (meth E clf ''decision_function'' [X] []) (\<lambda>prob_pos.
            bnd (meth E prob_pos ''min'' [] []) (\<lambda>lo.
            bnd (py_binop E ''operator.sub'' prob_pos lo) (\<lambda>num.
            bnd (meth E prob_pos ''max'' [] []) (\<lambda>hi.
            bnd (meth E prob_pos ''min'' [] []) (\<lambda>lo'.
            bnd (py_binop E ''operator.sub'' hi lo') (\<lambda>den.
            py_binop E ''operator.div'' num den))))))) (\<lambda>prob_pos.
     bnd (ext E ''calibration_curve'' [y, prob_pos] [(''n_bins'', PyInt 10)]) (\<lambda>r.
     bnd (lift_res (unpack2 r)) (\<lambda>(fraction_of_positives, mean_predicted_value).
     block [
       ign (meth E ax1 ''plot'' [mean_predicted_value, fraction_of_positives, PyStr ''s-'']
              [(''label'', PyStr algo)]),
       ign (meth E ax2 ''hist'' [prob_pos]
              [(''range'', PyTuple [PyInt 0, PyInt 1]), (''bins'', PyInt 10),
               (''label'', PyStr algo), (''histtype'', PyStr ''step''), (''lw'', PyInt 2)])
     ])))))))"

definition plot_calibration :: "env \<Rightarrow> model \<Rightarrow> string \<Rightarrow> unit act" where
  "plot_calibration E m partn =
     bnd (log_info ''Generating Calibration Plot'' []) (\<lambda>_.
     bnd (specs_get m ''model_type'') (\<lambda>model_type.
     if model_type \<noteq> ModelType_classification then
       log_info ''Calibration plot is for classification only'' []
     else
       bnd (lift_res (get_partition_data m partn)) (\<lambda>(X, y).
       bnd (ext E ''plt.figure'' [] [(''figsize'', PyTuple [PyInt 10, PyInt 10])]) (\<lambda>_.
       bnd (ext E ''plt.subplot2grid'' [PyTuple [PyInt 3, PyInt 1], PyTuple [PyInt 0, PyInt 0]]
              [(''rowspan'', PyInt 2)]) (\<lambda>ax1.
       bnd (ext E ''plt.subplot2grid'' [PyTuple [PyInt 3, PyInt 1], PyTuple [PyInt 2, PyInt 0]]
              []) (\<lambda>ax2.
       block [
         ign (meth E ax1 ''plot'' [PyList [PyInt 0, PyInt 1], PyList [PyInt 0, PyInt 1], PyStr ''k:'']
                [(''label'', PyStr ''Perfectly Calibrated'')]),
         for_each (algolist m) (calibration_algo E m partn X y ax1 ax2),
         ign (meth E ax1 ''set_ylabel'' [PyStr ''Fraction of Positives''] []),
         ign (meth E ax1 ''set_ylim'' [PyList [PyFloat (- 0.05), PyFloat 1.05]] []),
         ign (meth E ax1 ''legend'' [] [(''loc'', PyStr ''lower right'')]),
         ign (meth E ax1 ''set_title'' [PyStr ''Calibration Plots [Reliability Curve]''] []),
         ign (meth E ax2 ''set_xlabel'' [PyStr ''Mean Predicted Value''] []),
         ign (meth E ax2 ''set_ylabel'' [PyStr ''Count''] []),
         ign (meth E ax2 ''legend'' [] [(''loc'', PyStr ''upper center''), (''ncol'', PyInt 2)]),
         write_plot E m ''matplotlib'' PyNone ''calibration'' partn
       ]))))))"

subsection \<open>\<^verbatim>\<open>plot_importance\<close>\<close>

definition n_top :: nat where
  "n_top = 10"

text \<open>The statements inside \<^verbatim>\<open>try\<close>, for one algorithm.\<close>

definition importance_algo :: "env \<Rightarrow> model \<Rightarrow> string \<Rightarrow> string \<Rightarrow> unit act" where
  "importance_algo E m partn algo =
     bnd (lift_res (dict_get (importances m) algo (PyStr algo))) (\<lambda>imps.
     bnd (ext E ''np.argsort'' [imps] []) (\<lambda>order.
     bnd (py_getitem E order (PySlice PyNone PyNone (PyInt (- 1)))) (\<lambda>indices.
     block [
       log_info ''Feature Ranking:'' [],
       for_each [0..<n_top] (\<lambda>f.
         bnd (py_getitem E indices (PyInt (int f))) (\<lambda>i1.
         bnd (py_getitem E indices (PyInt (int f))) (\<lambda>i2.
         bnd (py_getitem E imps i2) (\<lambda>v.
         bnd (ext E ''operator.mod''
                [PyStr ''%d. Feature %d (%f)'', PyTuple [PyInt (int f + 1), i1, v]] []) (\<lambda>msg.
         log_msg msg))))),
       ign (ext E ''plt.figure'' [] []),
       ign (ext E ''plt.title''
              [PyStr (sjoin (BSEP E) [algo, ''Feature Importances ['', partn, '']''])] []),
       bnd (py_getitem E imps indices) (\<lambda>ranked.
       bnd (py_getitem E ranked (PySlice PyNone (PyInt (int n_top)) PyNone)) (\<lambda>heights.
       ign (ext E ''plt.bar'' [py_range n_top, heights]
              [(''color'', PyStr ''b''), (''align'', PyStr ''center'')]))),
       bnd (py_getitem E indices (PySlice PyNone (PyInt (int n_top)) PyNone)) (\<lambda>ticks.
       ign (ext E ''plt.xticks'' [py_range n_top, ticks] [])),
       ign (ext E ''plt.xlim'' [PyList [PyInt (- 1), PyInt (int n_top)]] []),
       write_plot E m ''matplotlib'' PyNone ''feature_importance'' (sjoin USEP [partn, algo])
     ])))"

definition plot_importance :: "env \<Rightarrow> model \<Rightarrow> string \<Rightarrow> unit act" where
  "plot_importance E m partn =
     bnd (log_info ''Generating Feature Importance Plots'' []) (\<lambda>_.
     bnd (lift_res (get_partition_data m partn)) (\<lambda>(X, y).
     for_each (algolist m) (\<lambda>algo.
       bnd (log_info ''Feature Importances for Algorithm: %s'' [PyStr algo]) (\<lambda>_.
       try_except (importance_algo E m partn algo)
         (log_info ''%s does not have feature importances'' [PyStr algo])))))"

subsection \<open>\<^verbatim>\<open>plot_learning_curve\<close>\<close>

text \<open>
  The loop body reassigns \<^verbatim>\<open>train_sizes\<close>, so the next algorithm is scored at the
  sizes the previous call returned: the loop threads it.
\<close>

definition learning_algo ::
  "env \<Rightarrow> model \<Rightarrow> string \<Rightarrow> pyval \<Rightarrow> pyval \<Rightarrow> pyval \<Rightarrow> pyval \<Rightarrow> pyval \<Rightarrow> pyval \<Rightarrow> string \<Rightarrow> pyval \<Rightarrow> pyval act" where
  "learning_algo E m partn X y cv scorer n_jobs verbosity algo train_sizes =
     bnd (log_info ''Learning Curve for Algorithm: %s'' [PyStr algo]) (\<lambda>_.
     bnd (lift_res (dict_get (estimators m) algo (PyStr algo))) (\<lambda>estimator.
     bnd (ext E ''plt.figure'' [] []) (\<lambda>_.
     bnd (ext E ''plt.title'' [PyStr (sjoin (BSEP E) [algo, ''Learning Curve ['', partn, '']''])] []) (\<lambda>_.
     bnd (ext E ''plt.ylim'' [PyFloat 0.0, PyFloat 1.01] []) (\<lambda>_.
     bnd (ext E ''plt.xlabel'' [PyStr ''Training Examples''] []) (\<lambda>_.
     bnd (ext E ''plt.ylabel'' [PyStr ''Score''] []) (\<lambda>_.
     bnd (ext E ''learning_curve'' [estimator, X, y]
            [(''train_sizes'', train_sizes), (''cv'', cv), (''scoring'', scorer),
             (''n_jobs'', n_jobs), (''verbose'', verbosity)]) (\<lambda>r.
     bnd (lift_res (unpack3 r)) (\<lambda>(train_sizes', train_scores, test_scores).
     bnd (ext E ''np.mean'' [train_scores] [(''axis'', PyInt 1)]) (\<lambda>train_scores_mean.
     bnd (ext E ''np.std'' [train_scores] [(''axis'', PyInt 1)]) (\<lambda>train_scores_std.
     bnd (ext E ''np.mean'' [test_scores] [(''axis'', PyInt 1)]) (\<lambda>test_scores_mean.
     bnd (ext E ''np.std'' [test_scores] [(''axis'', PyInt 1)]) (\<lambda>test_scores_std.
     bnd (ext E ''plt.grid'' [] []) (\<lambda>_.
     bnd (py_binop E ''operator.sub'' train_scores_mean train_scores_std) (\<lambda>a1.
     bnd (py_binop E ''operator.add'' train_scores_mean train_scores_std) (\<lambda>a2.
     bnd (ext E ''plt.fill_between'' [train_sizes', a1, a2]
            [(''alpha'', PyFloat 0.1), (''color'', PyStr ''r'')]) (\<lambda>_.
     bnd (py_binop E ''operator.sub'' test_scores_mean test_scores_std) (\<lambda>b1.
     bnd (py_binop E ''operator.add'' test_scores_mean test_scores_std) (\<lambda>b2.
     bnd (ext E ''plt.fill_between'' [train_sizes', b1, b2]
            [(''alpha'', PyFloat 0.1), (''color'', PyStr ''g'')]) (\<lambda>_.
     bnd (ext E ''plt.plot'' [train_sizes', train_scores_mean, PyStr ''o-'']
            [(''color'', PyStr ''r''), (''label'', PyStr ''Training Score'')]) (\<lambda>_.
     bnd (ext E ''plt.plot'' [train_sizes', test_scores_mean, PyStr ''o-'']
            [(''color'', PyStr ''g''), (''label'', PyStr ''Cross-Validation Score'')]) (\<lambda>_.
     bnd (ext E ''plt.legend'' [] [(''loc'', PyStr ''best'')]) (\<lambda>_.
     bnd (write_plot E m ''matplotlib'' PyNone ''learning_curve'' (sjoin USEP [partn, algo])) (\<lambda>_.
     ret train_sizes'))))))))))))))))))))))))"

definition plot_learning_curve :: "env \<Rightarrow> model \<Rightarrow> string \<Rightarrow> unit act" where
  "plot_learning_curve E m partn =
     bnd (log_info ''Generating Learning Curves'' []) (\<lambda>_.
     bnd (specs_get m ''cv_folds'') (\<lambda>cv_folds.
     bnd (specs_get m ''n_jobs'') (\<lambda>n_jobs.
     bnd (specs_get m ''scorer'') (\<lambda>scorer.
     bnd (specs_get m ''seed'') (\<lambda>seed.
     bnd (specs_get m ''shuffle'') (\<lambda>shuffle.
     bnd (specs_get m ''split'') (\<lambda>test_size.
     bnd (specs_get m ''verbosity'') (\<lambda>verbosity.
     bnd (lift_res (get_partition_data m partn)) (\<lambda>(X, y).
     bnd (ext E ''StratifiedShuffleSplit'' []
            [(''n_splits'', cv_folds), (''test_size'', test_size), (''random_state'', seed)]) (\<lambda>cv.
     bnd (ext E ''np.linspace'' [PyFloat 0.1, PyFloat 1.0, PyInt 5] []) (\<lambda>train_sizes.
     ign (for_loop (algolist m) train_sizes
            (learning_algo E m partn X y cv scorer n_jobs verbosity)))))))))))))"

subsection \<open>\<^verbatim>\<open>plot_roc_curve\<close>\<close>

text \<open>
  One cross-validation fold: the body of the inner loop.  It reassigns
  \<^verbatim>\<open>mean_tpr\<close> and the counter \<^verbatim>\<open>i\<close>.
\<close>

definition roc_fold ::
  "env \<Rightarrow> pyval \<Rightarrow> pyval \<Rightarrow> pyval \<Rightarrow> pyval \<Rightarrow> pyval \<Rightarrow> pyval \<Rightarrow> pyval \<times> int \<Rightarrow> (pyval \<times> int) act" where
  "roc_fold E estimator X y cv_folds mean_fpr item st =
     (case st of (mean_tpr, i) \<Rightarrow>
     bnd (lift_res (unpack2 item)) (\<lambda>(train, test).
     bnd (log_info ''Cross-Validation Fold: %d of %d'' [PyInt (i + 1), cv_folds]) (\<lambda>_.
     bnd (py_getitem E X train) (\<lambda>X_tr.
     bnd (py_getitem E y train) (\<lambda>y_tr.
     bnd (meth E estimator ''fit'' [X_tr, y_tr] []) (\<lambda>_.
     bnd (py_getitem E X test) (\<lambda>X_te.
     bnd (meth E estimator ''predict_proba'' [X_te] []) (\<lambda>probas'.
     bnd (py_getitem E y test) (\<lambda>y_te.
     bnd (py_getitem E probas' (PyTuple [PySlice PyNone PyNone PyNone, PyInt 1])) (\<lambda>scores.
     bnd (ext E ''roc_curve'' [y_te, scores] []) (\<lambda>r.
     bnd (lift_res (unpack3 r)) (\<lambda>(fpr, tpr, thresholds).
     bnd (ext E ''interp'' [mean_fpr, fpr, tpr] []) (\<lambda>interpolated.
     bnd (py_iadd E mean_tpr interpolated) (\<lambda>mean_tpr1.
     bnd (py_setitem E mean_tpr1 0 0.0) (\<lambda>mean_tpr2.
     bnd (ext E ''auc'' [fpr, tpr] []) (\<lambda>roc_auc.
     bnd (ext E ''operator.mod''
            [PyStr ''ROC Fold %d (area = %0.2f)'', PyTuple [PyInt (i + 1), roc_auc]] []) (\<lambda>label.
     bnd (ext E ''plt.plot'' [fpr, tpr] [(''lw'', PyInt 2), (''label'', label)]) (\<lambda>_.
     ret (mean_tpr2, i + 1)))))))))))))))))))"

text \<open>The body of the loop over \<^verbatim>\<open>model.algolist\<close>.\<close>

definition roc_algo ::
  "env \<Rightarrow> model \<Rightarrow> string \<Rightarrow> pyval \<Rightarrow> pyval \<Rightarrow> pyval \<Rightarrow> pyval \<Rightarrow> string \<Rightarrow> unit act" where
  "roc_algo E m partn X y cv cv_folds algo =
     bnd (log_info ''ROC Curve for Algorithm: %s'' [PyStr algo]) (\<lambda>_.
     bnd (lift_res (dict_get (estimators m) algo (PyStr algo))) (\<lambda>estimator.
     bnd (ext E ''np.linspace'' [PyInt 0, PyInt 1, PyInt 100] []) (\<lambda>mean_fpr.
     bnd (ext E ''plt.figure'' [] []) (\<lambda>_.
     bnd (ext E ''cycle'' [PyList [PyStr ''cyan'', PyStr ''indigo'', PyStr ''seagreen'',
                                   PyStr ''yellow'', PyStr ''blue'', PyStr ''darkorange'']] []) (\<lambda>colors.
     bnd (meth E cv ''split'' [X, y] []) (\<lambda>splits.
     bnd (lift_res (py_iter splits)) (\<lambda>items.
     bnd (for_loop items (PyFloat 0.0, 0) (roc_fold E estimator X y cv_folds mean_fpr)) (\<lambda>(mean_tpr, i).
     bnd (ext E ''plt.plot'' [PyList [PyInt 0, PyInt 1], PyList [PyInt 0, PyInt 1]]
            [(''linestyle'', PyStr ''--''), (''color'', PyStr ''k''), (''label'', PyStr ''Luck'')]) (\<lambda>_.
     bnd (meth E cv ''get_n_splits'' [X, y] []) (\<lambda>n_splits.
     bnd (py_idiv E mean_tpr n_splits) (\<lambda>mean_tpr1.
     bnd (py_setitem E mean_tpr1 (- 1) 1.0) (\<lambda>mean_tpr2.
     bnd (ext E ''auc'' [mean_fpr, mean_tpr2] []) (\<lambda>mean_auc.
     bnd (ext E ''operator.mod'' [PyStr ''Mean ROC (area = %0.2f)'', mean_auc] []) (\<lambda>label.
     block [
       ign (ext E ''plt.plot'' [mean_fpr, mean_tpr2]
              [(''color'', PyStr ''g''), (''linestyle'', PyStr ''--''), (''label'', label),
               (''lw'', PyInt 2)]),
       ign (ext E ''plt.xlim'' [PyList [PyFloat (- 0.05), PyFloat 1.05]] []),
       ign (ext E ''plt.ylim'' [PyList [PyFloat (- 0.05), PyFloat 1.05]] []),
       ign (ext E ''plt.xlabel'' [PyStr ''False Positive Rate''] []),
       ign (ext E ''plt.ylabel'' [PyStr ''True Positive Rate''] []),
       ign (ext E ''plt.title'' [PyStr (sjoin (BSEP E) [algo, ''ROC Curve ['', partn, '']''])] []),
       ign (ext E ''plt.legend'' [] [(''loc'', PyStr ''lower right'')]),
       write_plot E m ''matplotlib'' PyNone ''roc_curve'' (sjoin USEP [partn, algo])
     ]))))))))))))))"

definition plot_roc_curve :: "env \<Rightarrow> model \<Rightarrow> string \<Rightarrow> unit act" where
  "plot_roc_curve E m partn =
     bnd (log_info ''Generating ROC Curves'' []) (\<lambda>_.
     bnd (specs_get m ''model_type'') (\<lambda>model_type.
     if model_type \<noteq> ModelType_classification then
       log_info ''ROC Curves are for classification only'' []
     else
       bnd (specs_get m ''cv_folds'') (\<lambda>cv_folds.
       bnd (specs_get m ''seed'') (\<lambda>seed.
       bnd (specs_get m ''shuffle'') (\<lambda>shuffle.
       bnd (specs_get m ''split'') (\<lambda>test_size.
       bnd (lift_res (get_partition_data m partn)) (\<lambda>(X, y).
       bnd (lift_res (py_truthy shuffle)) (\<lambda>shuffled.
       bnd (if shuffled then
              ext E ''StratifiedShuffleSplit'' []
                [(''n_splits'', cv_folds), (''test_size'', test_size), (''random_state'', seed)]
            else
              ext E ''StratifiedKFold'' []
                [(''n_splits'', cv_folds), (''shuffle'', PyBool False), (''random_state'', seed)]) (\<lambda>cv.
       for_each (algolist m) (roc_algo E m partn X y cv cv_folds))))))))))"

subsection \<open>\<^verbatim>\<open>plot_confusion_matrix\<close>\<close>

definition confusion_algo :: "env \<Rightarrow> model \<Rightarrow> string \<Rightarrow> pyval \<Rightarrow> string \<Rightarrow> unit act" where
  "confusion_algo E m partn y algo =
     bnd (log_info ''Confusion Matrix for Algorithm: %s'' [PyStr algo]) (\<lambda>_.
     bnd (lift_res (dict_get (preds m) (algo, partn) (PyTuple [PyStr algo, PyStr partn]))) (\<lambda>y_pred.
     bnd (ext E ''confusion_matrix'' [y, y_pred] []) (\<lambda>cm.
     bnd (log_info ''Confusion Matrix: %s'' [cm]) (\<lambda>_.
     bnd (ext E ''np.set_printoptions'' [] [(''precision'', PyInt 2)]) (\<lambda>_.
     bnd (ext E ''plt.figure'' [] []) (\<lambda>_.
     bnd (ext E ''plt.imshow'' [cm]
            [(''interpolation'', PyStr ''nearest''), (''cmap'', PyGlobal ''plt.cm.Blues'')]) (\<lambda>_.
     bnd (ext E ''plt.title'' [PyStr (sjoin (BSEP E) [algo, ''Confusion Matrix ['', partn, '']''])] []) (\<lambda>_.
     bnd (ext E ''plt.colorbar'' [] []) (\<lambda>_.
     bnd (ext E ''np.unique'' [y] [(''return_counts'', PyBool True)]) (\<lambda>r.
     bnd (lift_res (unpack2 r)) (\<lambda>(y_values, y_counts).
     bnd (ext E ''len'' [y_values] []) (\<lambda>n.
     bnd (ext E ''np.arange'' [n] []) (\<lambda>tick_marks.
     block [
       ign (ext E ''plt.xticks'' [tick_marks, y_values] [(''rotation'', PyInt 45)]),
       ign (ext E ''plt.yticks'' [tick_marks, y_values] []),
       ign (ext E ''plt.tight_layout'' [] []),
       ign (ext E ''plt.ylabel'' [PyStr ''True Label''] []),
       ign (ext E ''plt.xlabel'' [PyStr ''Predicted Label''] []),
       write_plot E m ''matplotlib'' PyNone ''confusion'' (sjoin USEP [partn, algo])
     ])))))))))))))"

definition plot_confusion_matrix :: "env \<Rightarrow> model \<Rightarrow> string \<Rightarrow> unit act" where
  "plot_confusion_matrix E m partn =
     bnd (log_info ''Generating Confusion Matrices'' []) (\<lambda>_.
     bnd (lift_res (get_partition_data m partn)) (\<lambda>(X, y).
     for_each (algolist m) (confusion_algo E m partn y)))"

subsection \<open>\<^verbatim>\<open>plot_validation_curve\<close>\<close>

definition validation_algo ::
  "env \<Rightarrow> model \<Rightarrow> string \<Rightarrow> pyval \<Rightarrow> pyval \<Rightarrow> pyval \<Rightarrow> pyval \<Rightarrow> pyval \<Rightarrow> pyval \<Rightarrow> pyval \<Rightarrow> string \<Rightarrow> unit act" where
  "validation_algo E m partn pname prange X y cv_folds scorer n_jobs algo =
     bnd (log_info ''Algorithm: %s'' [PyStr algo]) (\<lambda>_.
     bnd (lift_res (dict_get (estimators m) algo (PyStr algo))) (\<lambda>estimator.
     bnd (ext E ''validation_curve'' [estimator, X, y]
            [(''param_name'', pname), (''param_range'', prange), (''cv'', cv_folds),
             (''scoring'', scorer), (''n_jobs'', n_jobs)]) (\<lambda>r.
     bnd (lift_res (unpack2 r)) (\<lambda>(train_scores, test_scores).
     bnd (ext E ''np.mean'' [train_scores] [(''axis'', PyInt 1)]) (\<lambda>train_scores_mean.
     bnd (ext E ''np.std'' [train_scores] [(''axis'', PyInt 1)]) (\<lambda>train_scores_std.
     bnd (ext E ''np.mean'' [test_scores] [(''axis'', PyInt 1)]) (\<lambda>test_scores_mean.
     bnd (ext E ''np.std'' [test_scores] [(''axis'', PyInt 1)]) (\<lambda>test_scores_std.
     bnd (ext E ''plt.title'' [PyStr (sjoin (BSEP E) [algo, ''Validation Curve ['', partn, '']''])] []) (\<lambda>_.
     bnd (ext E ''min'' [prange] []) (\<lambda>lo.
     bnd (py_binop E ''operator.sub'' lo (PyFloat 0.5)) (\<lambda>x_min.
     bnd (ext E ''max'' [prange] []) (\<lambda>hi.
     bnd (py_binop E ''operator.add'' hi (PyFloat 0.5)) (\<lambda>x_max.
     bnd (ext E ''plt.xlabel'' [pname] []) (\<lambda>_.
     bnd (ext E ''plt.xlim'' [x_min, x_max] []) (\<lambda>_.
     bnd (ext E ''plt.ylabel'' [PyStr ''Score''] []) (\<lambda>_.
     bnd (ext E ''plt.ylim'' [PyFloat 0.0, PyFloat 1.1] []) (\<lambda>_.
     bnd (ext E ''plt.plot'' [prange, train_scores_mean]
            [(''label'', PyStr ''Training Score''), (''color'', PyStr ''r'')]) (\<lambda>_.
     bnd (py_binop E ''operator.sub'' train_scores_mean train_scores_std) (\<lambda>a1.
     bnd (py_binop E ''operator.add'' train_scores_mean train_scores_std) (\<lambda>a2.
     bnd (ext E ''plt.fill_between'' [prange, a1, a2]
            [(''alpha'', PyFloat 0.2), (''color'', PyStr ''r'')]) (\<lambda>_.
     bnd (ext E ''plt.plot'' [prange, test_scores_mean]
            [(''label'', PyStr ''Cross-Validation Score''), (''color'', PyStr ''g'')]) (\<lambda>_.
     bnd (py_binop E ''operator.sub'' test_scores_mean test_scores_std) (\<lambda>b1.
     bnd (py_binop E ''operator.add'' test_scores_mean test_scores_std) (\<lambda>b2.
     bnd (ext E ''plt.fill_between'' [prange, b1, b2]
            [(''alpha'', PyFloat 0.2), (''color'', PyStr ''g'')]) (\<lambda>_.
     bnd (ext E ''plt.legend'' [] [(''loc'', PyStr ''best'')]) (\<lambda>_.
     write_plot E m ''matplotlib'' PyNone ''validation_curve'' (sjoin USEP [partn, algo])
     ))))))))))))))))))))))))))"

definition plot_validation_curve :: "env \<Rightarrow> model \<Rightarrow> string \<Rightarrow> pyval \<Rightarrow> pyval \<Rightarrow> unit act" where
  "plot_validation_curve E m partn pname prange =
     bnd (log_info ''Generating Validation Curves'' []) (\<lambda>_.
     bnd (specs_get m ''cv_folds'') (\<lambda>cv_folds.
     bnd (specs_get m ''n_jobs'') (\<lambda>n_jobs.
     bnd (specs_get m ''scorer'') (\<lambda>scorer.
     bnd (specs_get m ''verbosity'') (\<lambda>verbosity.
     bnd (lift_res (get_partition_data m partn)) (\<lambda>(X, y).
     for_each (algolist m)
       (validation_algo E m partn pname prange X y cv_folds scorer n_jobs)))))))"

subsection \<open>Exploratory plots\<close>

text \<open>
  \<^verbatim>\<open>plot_scatter\<close> calls \<^verbatim>\<open>features.append(target)\<close> on the list object its
  caller passed.  List objects live in a store, \<^verbatim>\<open>features\<close> is a reference into
  it, and the function returns the store it leaves behind.  A reference that holds
  no list has no \<^verbatim>\<open>append\<close>.
\<close>

type_synonym lists = "nat \<rightharpoonup> pyval list"

definition plot_scatter ::
  "env \<Rightarrow> model \<Rightarrow> pyval \<Rightarrow> nat \<Rightarrow> pyval \<Rightarrow> string \<Rightarrow> lists \<Rightarrow> event list \<Rightarrow> lists \<times> event list \<times> (exn + unit)" where
  "plot_scatter E m data features target tag store h =
     (case store features of
        None \<Rightarrow>
          (store, bnd (log_info ''Generating Scatter Plot'' [])
                    (\<lambda>_. raise (AttributeError ''append'')) h)
      | Some columns \<Rightarrow>
          (store(features \<mapsto> columns @ [target]),
           bnd (log_info ''Generating Scatter Plot'' []) (\<lambda>_.
           bnd (py_getitem E data (PyList (columns @ [target]))) (\<lambda>df.
           bnd (ext E ''sns.set'' [] []) (\<lambda>_.
           bnd (ext E ''sns.pairplot'' [df] [(''hue'', target)]) (\<lambda>sns_plot.
           write_plot E m ''seaborn'' sns_plot ''scatter_plot'' tag)))) h))"

definition plot_facet_grid ::
  "env \<Rightarrow> model \<Rightarrow> pyval \<Rightarrow> pyval \<Rightarrow> pyval \<Rightarrow> pyval \<Rightarrow> string \<Rightarrow> unit act" where
  "plot_facet_grid E m data target frow fcol tag =
     bnd (log_info ''Generating Facet Grid'' []) (\<lambda>_.
     bnd (py_getitem E data target) (\<lambda>c1.
     bnd (ext E ''len'' [c1] []) (\<lambda>tlen.
     bnd (py_getitem E data target) (\<lambda>c2.
     bnd (meth E c2 ''max'' [] []) (\<lambda>tmax.
     bnd (py_getitem E data target) (\<lambda>c3.
     bnd (meth E c3 ''min'' [] []) (\<lambda>tmin.
     bnd (py_binop E ''operator.sub'' tmax tmin) (\<lambda>trange.
     bnd (py_getitem E data target) (\<lambda>c4.
     bnd (meth E c4 ''quantile'' [Q3 E] []) (\<lambda>q3.
     bnd (py_getitem E data target) (\<lambda>c5.
     bnd (meth E c5 ''quantile'' [Q1 E] []) (\<lambda>q1.
     bnd (py_binop E ''operator.sub'' q3 q1) (\<lambda>iqr.
     bnd (py_binop E ''operator.mul'' (PyInt 2) iqr) (\<lambda>twice.
     bnd (py_binop E ''operator.div'' (PyInt (- 1)) (PyInt 3)) (\<lambda>expo.
     bnd (py_binop E ''operator.pow'' tlen expo) (\<lambda>root.
     bnd (py_binop E ''operator.mul'' twice root) (\<lambda>width.
     bnd (py_binop E ''operator.div'' trange width) (\<lambda>quot.
     bnd (ext E ''math.ceil'' [quot] []) (\<lambda>nbins.
     bnd (ext E ''sns.set'' [] [(''style'', PyStr ''darkgrid'')]) (\<lambda>_.
     bnd (ext E ''sns.FacetGrid'' [data]
            [(''row'', frow), (''col'', fcol), (''margin_titles'', PyBool True)]) (\<lambda>fg.
     bnd (ext E ''np.linspace'' [tmin, tmax, nbins] []) (\<lambda>bins.
     bnd (meth E fg ''map'' [PyGlobal ''plt.hist'', target]
            [(''color'', PyStr ''steelblue''), (''bins'', bins), (''lw'', PyInt 0)]) (\<lambda>_.
     write_plot E m ''seaborn'' fg ''facet_grid'' tag)))))))))))))))))))))))"

definition plot_distribution :: "env \<Rightarrow> model \<Rightarrow> pyval \<Rightarrow> pyval \<Rightarrow> string \<Rightarrow> unit act" where
  "plot_distribution E m data target tag =
     bnd (log_info ''Generating Distribution Plot'' []) (\<lambda>_.
     bnd (py_getitem E data target) (\<lambda>column.
     bnd (ext E ''sns.distplot'' [column] []) (\<lambda>dist_plot.
     bnd (meth E dist_plot ''get_figure'' [] []) (\<lambda>dist_fig.
     write_plot E m ''seaborn'' dist_fig ''distribution_plot'' tag))))"

definition plot_box ::
  "env \<Rightarrow> model \<Rightarrow> pyval \<Rightarrow> pyval \<Rightarrow> pyval \<Rightarrow> pyval \<Rightarrow> string \<Rightarrow> unit act" where
  "plot_box E m data x y hue tag =
     bnd (log_info ''Generating Box Plot'' []) (\<lambda>_.
     bnd (ext E ''sns.boxplot'' []
            [(''x'', x), (''y'', y), (''hue'', hue), (''data'', data)]) (\<lambda>box_plot.
     bnd (ext E ''sns.despine'' [] [(''offset'', PyInt 10), (''trim'', PyBool True)]) (\<lambda>_.
     bnd (meth E box_plot ''get_figure'' [] []) (\<lambda>box_fig.
     write_plot E m ''seaborn'' box_fig ''box_plot'' tag))))"

definition plot_swarm ::
  "env \<Rightarrow> model \<Rightarrow> pyval \<Rightarrow> pyval \<Rightarrow> pyval \<Rightarrow> pyval \<Rightarrow> string \<Rightarrow> unit act" where
  "plot_swarm E m data x y hue tag =
     bnd (log_info ''Generating Swarm Plot'' []) (\<lambda>_.
     bnd (ext E ''sns.swarmplot'' []
            [(''x'', x), (''y'', y), (''hue'', hue), (''data'', data)]) (\<lambda>swarm_plot.
     bnd (meth E swarm_plot ''get_figure'' [] []) (\<lambda>swarm_fig.
     write_plot E m ''seaborn'' swarm_fig ''swarm_plot'' tag)))"

text \<open>
  \<^verbatim>\<open>plot_partial_dependence\<close> and \<^verbatim>\<open>plot_boundary\<close> use names the module neither
  defines nor imports (\<^verbatim>\<open>fetch_california_housing\<close>, \<^verbatim>\<open>classifiers\<close>): the first
  such use raises \<^verbatim>\<open>NameError\<close>, and the statements after it are never reached.
  The assignments of constants before it have no effect to record.
\<close>

definition plot_partial_dependence :: "env \<Rightarrow> model \<Rightarrow> string \<Rightarrow> pyval \<Rightarrow> unit act" where
  "plot_partial_dependence E m partn targets =
     bnd (log_info ''Generating Partial Dependence Plot'' []) (\<lambda>_.
     bnd (lift_res (get_partition_data m partn)) (\<lambda>(X, y).
     raise (NameError ''fetch_california_housing'')))"

definition plot_boundary :: "env \<Rightarrow> model \<Rightarrow> string \<Rightarrow> pyval \<Rightarrow> pyval \<Rightarrow> unit act" where
  "plot_boundary E m partn f1 f2 =
     bnd (log_info ''Generating Boundary Plots'' []) (\<lambda>_.
     bnd (specs_get m ''model_type'') (\<lambda>model_type.
     if model_type \<noteq> ModelType_classification then
       log_info ''Boundary Plots are for classification only'' []
     else
       bnd (lift_res (get_partition_data m partn)) (\<lambda>(X, y).
       raise (NameError ''classifiers''))))"

subsection \<open>Time series plots\<close>

definition plot_time_series :: "env \<Rightarrow> model \<Rightarrow> pyval \<Rightarrow> pyval \<Rightarrow> string \<Rightarrow> unit act" where
  "plot_time_series E m data target tag =
     bnd (log_info ''Generating Time Series Plot'' []) (\<lambda>_.
     bnd (py_getitem E data target) (\<lambda>column.
     bnd (ext E ''sns.tsplot'' [] [(''data'', column)]) (\<lambda>ts_plot.
     bnd (meth E ts_plot ''get_figure'' [] []) (\<lambda>ts_fig.
     write_plot E m ''seaborn'' ts_fig ''time_series_plot'' tag))))"

text \<open>One \<^verbatim>\<open>p.rect(df.date[sel], mids[sel], w, spans[sel], ...)\<close> of the candlestick chart.\<close>

definition candle_rect ::
  "env \<Rightarrow> pyval \<Rightarrow> pyval \<Rightarrow> pyval \<Rightarrow> pyval \<Rightarrow> pyval \<Rightarrow> string \<Rightarrow> unit act" where
  "candle_rect E p df mids spans sel colour =
     bnd (attr_get E df ''date'') (\<lambda>dates.
     bnd (py_getitem E dates sel) (\<lambda>xs.
     bnd (py_getitem E mids sel) (\<lambda>ys.
     bnd (py_getitem E spans sel) (\<lambda>hs.
     ign (meth E p ''rect'' [xs, ys, PyInt (12 * 60 * 60 * 1000), hs]
            [(''fill_color'', PyStr colour), (''line_color'', PyStr ''black'')])))))"

text \<open>
  \<^verbatim>\<open>plot_candlestick(df, symbol, cols=[], model=None)\<close>: the model is optional, and
  without one the chart is shown instead of written.
\<close>

definition plot_candlestick :: "env \<Rightarrow> pyval \<Rightarrow> string \<Rightarrow> pyval \<Rightarrow> model option \<Rightarrow> unit act" where
  "plot_candlestick E df symbol cols mo =
     bnd (py_getitem E df (PyStr ''date'')) (\<lambda>d0.
     bnd (ext E ''pd.to_datetime'' [d0] []) (\<lambda>d1.
     bnd (ext E ''operator.setitem'' [df, PyStr ''date'', d1] []) (\<lambda>_.
     bnd (attr_get E df ''open'') (\<lambda>o1.
     bnd (attr_get E df ''close'') (\<lambda>c1.
     bnd (py_binop E ''operator.add'' o1 c1) (\<lambda>total.
     bnd (py_binop E ''operator.div'' total (PyInt 2)) (\<lambda>mids.
     bnd (attr_get E df ''close'') (\<lambda>c2.
     bnd (attr_get E df ''open'') (\<lambda>o2.
     bnd (py_binop E ''operator.sub'' c2 o2) (\<lambda>diff.
     bnd (ext E ''abs'' [diff] []) (\<lambda>spans.
     bnd (attr_get E df ''close'') (\<lambda>c3.
     bnd (attr_get E df ''open'') (\<lambda>o3.
     bnd (py_binop E ''operator.gt'' c3 o3) (\<lambda>inc.
     bnd (attr_get E df ''open'') (\<lambda>o4.
     bnd (attr_get E df ''close'') (\<lambda>c4.
     bnd (py_binop E ''operator.gt'' o4 c4) (\<lambda>dec.
     bnd (ext E ''figure'' []
            [(''x_axis_type'', PyStr ''datetime''),
             (''tools'', PyStr ''pan, wheel_zoom, box_zoom, reset, save''),
             (''plot_width'', PyInt 1000), (''toolbar_location'', PyStr ''left'')]) (\<lambda>p.
     bnd (ext E ''str.upper'' [PyStr symbol] []) (\<lambda>upper.
     bnd (lift_res (str_join (BSEP E) [upper, PyStr ''Candlestick''])) (\<lambda>title.
     bnd (attr_set E p ''title'' (PyStr title)) (\<lambda>_.
     bnd (py_binop E ''operator.div'' (PyGlobal ''math.pi'') (PyInt 4)) (\<lambda>angle.
     bnd (attr_get E p ''xaxis'') (\<lambda>xaxis.
     bnd (attr_set E xaxis ''major_label_orientation'' angle) (\<lambda>_.
     bnd (attr_get E p ''grid'') (\<lambda>grid.
     bnd (attr_set E grid ''grid_line_alpha'' (PyFloat 0.3)) (\<lambda>_.
     bnd (attr_get E df ''date'') (\<lambda>s1.
     bnd (attr_get E df ''high'') (\<lambda>s2.
     bnd (attr_get E df ''date'') (\<lambda>s3.
     bnd (attr_get E df ''low'') (\<lambda>s4.
     bnd (meth E p ''segment'' [s1, s2, s3, s4] [(''color'', PyStr ''black'')]) (\<lambda>_.
     bnd (candle_rect E p df mids spans inc ''#D5E1DD'') (\<lambda>_.
     bnd (candle_rect E p df mids spans dec ''#F2583E'') (\<lambda>_.
     case mo of
       Some m \<Rightarrow> write_plot E m ''bokeh'' p ''candlestick_chart'' symbol
     | None \<Rightarrow> ign (ext E ''show'' [p] [])
     )))))))))))))))))))))))))))))))))"

subsection \<open>\<^verbatim>\<open>generate_plots\<close>\<close>

text \<open>\<^verbatim>\<open>if flag: plot(model, partition)\<close>.\<close>

definition when_true :: "pyval \<Rightarrow> unit act \<Rightarrow> unit act" where
  "when_true flag body =
     bnd (lift_res (py_truthy flag)) (\<lambda>b. if b then body else ret ())"

definition generate_plots :: "env \<Rightarrow> model \<Rightarrow> string \<Rightarrow> unit act" where
  "generate_plots E m partn =
     bnd (log_info ''Generating Plots for Partition: %s'' [PyStr partn]) (\<lambda>_.
     bnd (specs_get m ''calibration_plot'') (\<lambda>calibration_plot.
     bnd (specs_get m ''confusion_matrix'') (\<lambda>confusion_matrix.
     bnd (specs_get m ''importances'') (\<lambda>importances_flag.
     bnd (specs_get m ''learning_curve'') (\<lambda>learning_curve.
     bnd (specs_get m ''roc_curve'') (\<lambda>roc_curve.
     block [
       when_true calibration_plot (plot_calibration E m partn),
       when_true confusion_matrix (plot_confusion_matrix E m partn),
       when_true roc_curve (plot_roc_curve E m partn),
       if partn = ''train'' then
         block [
           when_true importances_flag (plot_importance E m partn),
           when_true learning_curve (plot_learning_curve E m partn)
         ]
       else ret ()
     ]))))))"

section \<open>Observations on a trace\<close>

text \<open>
  A file is written by a save call that returned: \<^verbatim>\<open>plt.savefig(path)\<close>,
  \<^verbatim>\<open>plot.savefig(path)\<close> or \<^verbatim>\<open>plot.save(path)\<close>.
\<close>

fun written :: "event \<Rightarrow> string list" where
  "written (Call f args kw (Inr v)) =
     (if f = ''plt.savefig'' \<or> f = ''.savefig'' \<or> f = ''.save''
      then (case rev args of PyStr p # _ \<Rightarrow> [p] | _ \<Rightarrow> [])
      else [])"
| "written _ = []"

definition file_writes :: "event list \<Rightarrow> string list" where
  "file_writes t = concat (map written t)"

text \<open>The path as the specification words it.\<close>

definition spec_path :: "string \<Rightarrow> string \<Rightarrow> string \<Rightarrow> string \<Rightarrow> string" where
  "spec_path base_dir project category tag =
     base_dir @ ''/'' @ project @ ''/'' @ category @ ''_'' @ tag @ ''.png''"

text \<open>A property of every event a computation can add, whatever the history.\<close>

definition evs :: "(event \<Rightarrow> bool) \<Rightarrow> 'a act \<Rightarrow> bool" where
  "evs P m = (\<forall>h. \<forall>e \<in> set (fst (m h)). P e)"

text \<open>An event that writes no file.\<close>

definition quiet :: "event \<Rightarrow> bool" where
  "quiet e = (written e = [])"

text \<open>
  A computation that writes the file \<open>p\<close> exactly when it returns normally, and
  nothing otherwise.
\<close>

definition writes_one :: "string \<Rightarrow> 'a act \<Rightarrow> bool" where
  "writes_one p m =
     (\<forall>h. file_writes (fst (m h)) = (case snd (m h) of Inl e \<Rightarrow> [] | Inr x \<Rightarrow> [p]))"

text \<open>
  A computation that writes the files \<open>ps\<close> in this order when it returns normally,
  and the first few of them when it raises.
\<close>

definition writes_seq :: "string list \<Rightarrow> 'a act \<Rightarrow> bool" where
  "writes_seq ps m =
     (\<forall>h. prefix (file_writes (fst (m h))) ps \<and>
          (case snd (m h) of Inl e \<Rightarrow> True | Inr x \<Rightarrow> file_writes (fst (m h)) = ps))"

section \<open>A concrete model and environment\<close>

text \<open>
  The scenario of the specification: two algorithms, ROC curves enabled, output
  under \<^verbatim>\<open>/tmp/out/proj1\<close>.  The algorithm \<^verbatim>\<open>rf\<close> has no feature importances.
\<close>

definition demo_specs :: "string \<rightharpoonup> pyval" where
  "demo_specs =
     [''roc_curve'' \<mapsto> PyBool True,
      ''model_type'' \<mapsto> ModelType_classification,
      ''base_dir'' \<mapsto> PyStr ''/tmp/out'',
      ''project'' \<mapsto> PyStr ''proj1'',
      ''cv_folds'' \<mapsto> PyInt 3,
      ''seed'' \<mapsto> PyInt 0,
      ''shuffle'' \<mapsto> PyBool True,
      ''split'' \<mapsto> PyFloat 0.2,
      ''calibration_plot'' \<mapsto> PyBool True,
      ''confusion_matrix'' \<mapsto> PyBool False,
      ''importances'' \<mapsto> PyBool True,
      ''learning_curve'' \<mapsto> PyBool True,
      ''n_jobs'' \<mapsto> PyInt 1,
      ''scorer'' \<mapsto> PyStr ''roc_auc'',
      ''verbosity'' \<mapsto> PyInt 0]"

definition demo_model :: model where
  "demo_model =
     \<lparr>specs = demo_specs,
      algolist = [''svm'', ''rf''],
      estimators = [''svm'' \<mapsto> PyObj 1, ''rf'' \<mapsto> PyObj 2],
      probas = [(''svm'', ''test'') \<mapsto> PyArr [0.2, 0.9], (''rf'', ''test'') \<mapsto> PyArr [0.4, 0.7],
                (''svm'', ''train'') \<mapsto> PyArr [0.1, 0.8], (''rf'', ''train'') \<mapsto> PyArr [0.3, 0.6]],
      preds = [(''svm'', ''test'') \<mapsto> PyArr [0, 1], (''rf'', ''test'') \<mapsto> PyArr [0, 1],
               (''svm'', ''train'') \<mapsto> PyArr [0, 1], (''rf'', ''train'') \<mapsto> PyArr [0, 1]],
      importances = [''svm'' \<mapsto> PyObj 3],
      X_train = PyObj 10, y_train = PyObj 11, X_test = PyObj 12, y_test = PyObj 13\<rparr>"

text \<open>The same model with a regression model type.\<close>

definition demo_regression :: model where
  "demo_regression =
     demo_model\<lparr>specs := demo_specs(''model_type'' \<mapsto> PyGlobal ''ModelType.regression'')\<rparr>"

text \<open>
  An environment in which every library call returns: tuples where the module
  unpacks one, a three-point grid and curves of that length, three folds, and an
  opaque object everywhere else.
\<close>

definition demo_respond ::
  "event list \<Rightarrow> string \<Rightarrow> pyval list \<Rightarrow> (string \<times> pyval) list \<Rightarrow> exn + pyval" where
  "demo_respond h f args kw =
     (if f = ''.split'' then
        Inr (PyList [PyTuple [PyObj 20, PyObj 21], PyTuple [PyObj 22, PyObj 23],
                     PyTuple [PyObj 24, PyObj 25]])
      else if f = ''.get_n_splits'' then Inr (PyInt 3)
      else if f = ''np.linspace'' then Inr (PyArr [0, 0.5, 1])
      else if f = ''roc_curve'' then
        Inr (PyTuple [PyArr [0, 0.5, 1], PyArr [0, 0.8, 1], PyArr [1, 0.5, 0]])
      else if f = ''interp'' then Inr (PyArr [0.3, 0.6, 0.9])
      else if f = ''auc'' then Inr (PyFloat 0.75)
      else if f = ''hasattr'' then Inr (PyBool True)
      else if f = ''calibration_curve'' \<or> f = ''np.unique'' \<or> f = ''validation_curve'' then
        Inr (PyTuple [PyObj 30, PyObj 31])
      else if f = ''learning_curve'' then Inr (PyTuple [PyObj 32, PyObj 33, PyObj 34])
      else if f = ''str.upper'' then Inr (PyStr ''AAPL'')
      else Inr (PyObj 0))"

definition demo_env :: env where
  "demo_env = \<lparr>respond = demo_respond, BSEP = '' '', Q1 = PyFloat 0.25, Q3 = PyFloat 0.75\<rparr>"

section \<open>Running a computation\<close>

lemma run_ret [simp]: "ret x h = ([], Inr x)"
  by (simp add: ret_def)

lemma run_raise [simp]: "raise e h = ([], Inl e)"
  by (simp add: raise_def)

lemma run_lift_res [simp]: "lift_res r h = ([], r)"
  by (simp add: lift_res_def)

lemma run_log_info [simp]: "log_info msg args h = ([Log (PyStr msg) args], Inr ())"
  by (simp add: log_info_def)

lemma run_log_msg [simp]: "log_msg msg h = ([Log msg []], Inr ())"
  by (simp add: log_msg_def)

lemma run_ext: "ext E f args kw h = ([Call f args kw (respond E h f args kw)], respond E h f args kw)"
  by (simp add: ext_def Let_def)

lemma run_bnd_Inl: "m h = (t, Inl e) \<Longrightarrow> bnd m f h = (t, Inl e)"
  by (simp add: bnd_def)

lemma run_bnd_Inr: "m h = (t, Inr x) \<Longrightarrow> bnd m f h = (t @ fst (f x (h @ t)), snd (f x (h @ t)))"
  by (simp add: bnd_def split: prod.splits)

lemma fst_bnd:
  "fst (bnd m f h) =
     fst (m h) @ (case snd (m h) of Inl e \<Rightarrow> [] | Inr x \<Rightarrow> fst (f x (h @ fst (m h))))"
  by (simp add: bnd_def split: prod.splits sum.splits)

lemma snd_bnd:
  "snd (bnd m f h) =
     (case snd (m h) of Inl e \<Rightarrow> Inl e | Inr x \<Rightarrow> snd (f x (h @ fst (m h))))"
  by (simp add: bnd_def split: prod.splits sum.splits)

lemma fst_try:
  "fst (try_except m k h) =
     fst (m h) @ (case snd (m h) of Inr x \<Rightarrow> [] | Inl e \<Rightarrow> fst (k (h @ fst (m h))))"
  by (simp add: try_except_def split: prod.splits sum.splits)

lemma snd_try:
  "snd (try_except m k h) =
     (case snd (m h) of Inr x \<Rightarrow> Inr x | Inl e \<Rightarrow> snd (k (h @ fst (m h))))"
  by (simp add: try_except_def split: prod.splits sum.splits)

lemma bnd_ret [simp]: "bnd (ret x) f = f x"
  by (rule ext) (simp add: bnd_def)

lemma bnd_raise [simp]: "bnd (raise e) f = raise e"
  by (rule ext) (simp add: bnd_def)

lemma bnd_lift_Inr [simp]: "bnd (lift_res (Inr x)) f = f x"
  by (rule ext) (simp add: bnd_def)

lemma bnd_lift_Inl [simp]: "bnd (lift_res (Inl e)) f = raise e"
  by (rule ext) (simp add: bnd_def)

lemma run_bnd_log:
  "bnd (log_info msg args) f h =
     (Log (PyStr msg) args # fst (f () (h @ [Log (PyStr msg) args])),
      snd (f () (h @ [Log (PyStr msg) args])))"
  by (simp add: bnd_def split: prod.splits)

lemma specs_get_Some: "specs m k = Some v \<Longrightarrow> specs_get m k = lift_res (Inr v)"
  by (simp add: specs_get_def dict_get_def)

lemma specs_get_None: "specs m k = None \<Longrightarrow> specs_get m k = raise (KeyError (PyStr k))"
  by (rule ext) (simp add: specs_get_def dict_get_def)

text \<open>What \<^verbatim>\<open>write_plot\<close> does once the path is known.\<close>

lemma write_plot_configured:
  assumes "specs m ''base_dir'' = Some (PyStr b)" and "specs m ''project'' = Some (PyStr p)"
  shows "write_plot E m vizlib plot plot_type tag =
     bnd (log_info ''Writing plot to %s'' [PyStr (spec_path b p plot_type tag)]) (\<lambda>_.
       if vizlib = ''matplotlib'' then
         block [ign (ext E ''plt.tight_layout'' [] []),
                ign (ext E ''plt.savefig'' [PyStr (spec_path b p plot_type tag)] [])]
       else if vizlib = ''seaborn'' then
         ign (meth E plot ''savefig'' [PyStr (spec_path b p plot_type tag)] [])
       else if vizlib = ''bokeh'' then
         ign (meth E plot ''save'' [PyStr (spec_path b p plot_type tag)] [])
       else if vizlib = ''plotly'' then
         raise (ValueError [PyStr ''Unsupported data visualization library: %s'', PyStr vizlib])
       else
         raise (ValueError [PyStr ''Unrecognized data visualization library: %s'', PyStr vizlib]))"
  by (simp add: write_plot_def specs_get_Some [OF assms(1)] specs_get_Some [OF assms(2)]
      spec_path_def USEP_def SSEP_def)

lemma run_ign_ext:
  "ign (ext E f args kw) h =
     ([Call f args kw (respond E h f args kw)],
      case respond E h f args kw of Inl e \<Rightarrow> Inl e | Inr v \<Rightarrow> Inr ())"
  by (simp add: ign_def bnd_def run_ext split: sum.splits)

lemma run_ign_meth:
  "ign (meth E obj name args kw) h =
     (if obj = PyNone then ([], Inl (AttributeError name))
      else ([Call (CHR ''.'' # name) (obj # args) kw (respond E h (CHR ''.'' # name) (obj # args) kw)],
            case respond E h (CHR ''.'' # name) (obj # args) kw of
              Inl e \<Rightarrow> Inl e | Inr v \<Rightarrow> Inr ()))"
  by (simp add: meth_def run_ign_ext) (simp add: ign_def)

lemma file_writes_Nil [simp]: "file_writes [] = []"
  by (simp add: file_writes_def)

lemma file_writes_append [simp]: "file_writes (a @ b) = file_writes a @ file_writes b"
  by (simp add: file_writes_def)

lemma file_writes_Cons: "file_writes (e # t) = written e @ file_writes t"
  by (simp add: file_writes_def)

section \<open>The partition selector\<close>

text \<open>
  Claim C3.  \<^verbatim>\<open>get_partition_data\<close> returns the stored training pair for
  \<^verbatim>\<open>'train'\<close>, the stored test pair for \<^verbatim>\<open>'test'\<close>, and raises at once (the
  \<^verbatim>\<open>TypeError\<close> "Partition must be train or test") for every other partition.  The
  function reads the model and assigns nothing, so it has no model to return.
\<close>

theorem get_partition_data_cases:
  "get_partition_data m ''train'' = Inr (X_train m, y_train m) \<and>
   get_partition_data m ''test'' = Inr (X_test m, y_test m) \<and>
   (partn \<noteq> ''train'' \<and> partn \<noteq> ''test'' \<longrightarrow>
      get_partition_data m partn = Inl (TypeError ''Partition must be train or test''))"
  by (simp add: get_partition_data_def)

theorem get_partition_data_cases_witness:
  "get_partition_data demo_model ''train'' = Inr (PyObj 10, PyObj 11) \<and>
   get_partition_data demo_model ''test'' = Inr (PyObj 12, PyObj 13) \<and>
   get_partition_data demo_model ''validation'' = Inl (TypeError ''Partition must be train or test'')"
  using get_partition_data_cases [of demo_model "''validation''"]
  by (simp add: demo_model_def)

section \<open>The output writer\<close>

text \<open>
  Claim C1.  For a backend other than \<^verbatim>\<open>'matplotlib'\<close>, \<^verbatim>\<open>'seaborn'\<close> and
  \<^verbatim>\<open>'bokeh'\<close>, \<^verbatim>\<open>write_plot\<close> raises and writes no file, whatever the model holds.
  When the configuration has its base directory and project, the exception is a
  \<^verbatim>\<open>ValueError\<close> carrying the offending backend, the only event is the log line with
  the path, and \<^verbatim>\<open>'plotly'\<close> differs from an unknown name in the message alone.
\<close>

theorem write_plot_unsupported_backend:
  assumes "vizlib \<notin> {''matplotlib'', ''seaborn'', ''bokeh''}"
  shows "(\<exists>e. snd (write_plot E m vizlib plot plot_type tag h) = Inl e) \<and>
         file_writes (fst (write_plot E m vizlib plot plot_type tag h)) = [] \<and>
         (\<forall>b p. specs m ''base_dir'' = Some (PyStr b) \<and> specs m ''project'' = Some (PyStr p) \<longrightarrow>
            write_plot E m vizlib plot plot_type tag h =
              ([Log (PyStr ''Writing plot to %s'') [PyStr (spec_path b p plot_type tag)]],
               Inl (ValueError
                 [PyStr (if vizlib = ''plotly''
                         then ''Unsupported data visualization library: %s''
                         else ''Unrecognized data visualization library: %s''),
                  PyStr vizlib])))"
  using assms
  by (simp add: write_plot_def bnd_def specs_get_def dict_get_def
      spec_path_def USEP_def SSEP_def file_writes_def
      split: option.splits sum.splits prod.splits)

theorem write_plot_unsupported_backend_witness:
  "write_plot demo_env demo_model ''plotly'' PyNone ''roc_curve'' ''test_svm'' [] =
     ([Log (PyStr ''Writing plot to %s'') [PyStr ''/tmp/out/proj1/roc_curve_test_svm.png'']],
      Inl (ValueError [PyStr ''Unsupported data visualization library: %s'', PyStr ''plotly'']))
   \<and> file_writes (fst (write_plot demo_env demo_model ''plotly'' PyNone ''roc_curve'' ''test_svm'' [])) = []"
proof -
  have v: "''plotly'' \<notin> {''matplotlib'', ''seaborn'', ''bokeh''}"
    by simp
  have b: "specs demo_model ''base_dir'' = Some (PyStr ''/tmp/out'')"
    by (simp add: demo_model_def demo_specs_def)
  have p: "specs demo_model ''project'' = Some (PyStr ''proj1'')"
    by (simp add: demo_model_def demo_specs_def)
  note w = write_plot_unsupported_backend
    [OF v, of demo_env demo_model PyNone "''roc_curve''" "''test_svm''" "[]"]
  from w have nowrite: "file_writes (fst (write_plot demo_env demo_model ''plotly'' PyNone
      ''roc_curve'' ''test_svm'' [])) = []"
    by blast
  from w b p have "write_plot demo_env demo_model ''plotly'' PyNone ''roc_curve'' ''test_svm'' [] =
      ([Log (PyStr ''Writing plot to %s'') [PyStr (spec_path ''/tmp/out'' ''proj1'' ''roc_curve'' ''test_svm'')]],
       Inl (ValueError [PyStr (if ''plotly'' = ''plotly''
                         then ''Unsupported data visualization library: %s''
                         else ''Unrecognized data visualization library: %s''), PyStr ''plotly'']))"
    by blast
  with nowrite show ?thesis
    by (simp add: spec_path_def)
qed

text \<open>
  Claim C2.  With a base directory and a project in the configuration and one of
  the three supported backends, \<^verbatim>\<open>write_plot\<close> first logs the path
  \<^verbatim>\<open>base_dir/project/category_tag.png\<close> and writes exactly that file when it returns
  normally, and no file when the save raises.  The path is the same expression for
  the three backends, and \<open>plot_type\<close> and \<open>tag\<close> enter it as they are, for all
  strings.
\<close>

theorem write_plot_path:
  assumes "specs m ''base_dir'' = Some (PyStr b)"
    and "specs m ''project'' = Some (PyStr p)"
    and "vizlib \<in> {''matplotlib'', ''seaborn'', ''bokeh''}"
  shows "(\<exists>rest. fst (write_plot E m vizlib plot plot_type tag h) =
            Log (PyStr ''Writing plot to %s'') [PyStr (spec_path b p plot_type tag)] # rest) \<and>
         file_writes (fst (write_plot E m vizlib plot plot_type tag h)) =
           (case snd (write_plot E m vizlib plot plot_type tag h) of
              Inl e \<Rightarrow> [] | Inr u \<Rightarrow> [spec_path b p plot_type tag])"
proof -
  let ?h = "h @ [Log (PyStr ''Writing plot to %s'') [PyStr (spec_path b p plot_type tag)]]"
  consider "vizlib = ''matplotlib''" | "vizlib = ''seaborn''" | "vizlib = ''bokeh''"
    using assms(3) by auto
  then show ?thesis
  proof cases
    case 1
    then show ?thesis
      by (simp add: write_plot_configured [OF assms(1) assms(2)] run_bnd_log fst_bnd snd_bnd
          run_ign_ext file_writes_Cons split: sum.splits)
  next
    case 2
    then show ?thesis
      by (simp add: write_plot_configured [OF assms(1) assms(2)] run_bnd_log
          run_ign_meth file_writes_Cons split: sum.splits)
  next
    case 3
    then show ?thesis
      by (simp add: write_plot_configured [OF assms(1) assms(2)] run_bnd_log
          run_ign_meth file_writes_Cons split: sum.splits)
  qed
qed

theorem write_plot_path_witness:
  "snd (write_plot demo_env demo_model ''matplotlib'' PyNone ''roc_curve'' ''train_svm'' []) = Inr () \<and>
   file_writes (fst (write_plot demo_env demo_model ''matplotlib'' PyNone ''roc_curve'' ''train_svm'' [])) =
     [''/tmp/out/proj1/roc_curve_train_svm.png''] \<and>
   file_writes (fst (write_plot demo_env demo_model ''bokeh'' (PyObj 7) ''roc_curve'' ''train_svm'' [])) =
     [''/tmp/out/proj1/roc_curve_train_svm.png'']"
proof -
  have b: "specs demo_model ''base_dir'' = Some (PyStr ''/tmp/out'')"
    by (simp add: demo_model_def demo_specs_def)
  have p: "specs demo_model ''project'' = Some (PyStr ''proj1'')"
    by (simp add: demo_model_def demo_specs_def)
  have r1: "snd (write_plot demo_env demo_model ''matplotlib'' PyNone ''roc_curve'' ''train_svm'' []) = Inr ()"
    by (simp add: write_plot_configured [OF b p] run_bnd_log fst_bnd snd_bnd run_ign_ext
        demo_env_def demo_respond_def)
  have r2: "snd (write_plot demo_env demo_model ''bokeh'' (PyObj 7) ''roc_curve'' ''train_svm'' []) = Inr ()"
    by (simp add: write_plot_configured [OF b p] run_bnd_log run_ign_meth
        demo_env_def demo_respond_def)
  have v1: "''matplotlib'' \<in> {''matplotlib'', ''seaborn'', ''bokeh''}"
    by simp
  have v2: "''bokeh'' \<in> {''matplotlib'', ''seaborn'', ''bokeh''}"
    by simp
  from write_plot_path [OF b p v1, of demo_env PyNone "''roc_curve''" "''train_svm''" "[]"] r1
  have w1: "file_writes (fst (write_plot demo_env demo_model ''matplotlib'' PyNone ''roc_curve'' ''train_svm'' [])) =
      [spec_path ''/tmp/out'' ''proj1'' ''roc_curve'' ''train_svm'']"
    by simp
  from write_plot_path [OF b p v2, of demo_env "PyObj 7" "''roc_curve''" "''train_svm''" "[]"] r2
  have w2: "file_writes (fst (write_plot demo_env demo_model ''bokeh'' (PyObj 7) ''roc_curve'' ''train_svm'' [])) =
      [spec_path ''/tmp/out'' ''proj1'' ''roc_curve'' ''train_svm'']"
    by simp
  from r1 w1 w2 show ?thesis
    by (simp add: spec_path_def)
qed

section \<open>The classification gate\<close>

text \<open>
  Claim C4.  When the model type in the configuration is anything but
  \<^verbatim>\<open>ModelType.classification\<close>, each of \<^verbatim>\<open>plot_calibration\<close>, \<^verbatim>\<open>plot_roc_curve\<close>
  and \<^verbatim>\<open>plot_boundary\<close> adds two log lines and nothing else (no library call, so
  nothing is rendered and nothing saved) and returns normally, for every partition,
  valid or not.
\<close>

theorem classification_only_plots_skip:
  assumes "specs m ''model_type'' = Some v"
    and "v \<noteq> ModelType_classification"
  shows "plot_calibration E m partn h =
           ([Log (PyStr ''Generating Calibration Plot'') [],
             Log (PyStr ''Calibration plot is for classification only'') []], Inr ()) \<and>
         plot_roc_curve E m partn h =
           ([Log (PyStr ''Generating ROC Curves'') [],
             Log (PyStr ''ROC Curves are for classification only'') []], Inr ()) \<and>
         plot_boundary E m partn f1 f2 h =
           ([Log (PyStr ''Generating Boundary Plots'') [],
             Log (PyStr ''Boundary Plots are for classification only'') []], Inr ())"
  using assms
  by (simp add: plot_calibration_def plot_roc_curve_def plot_boundary_def bnd_def
      specs_get_def dict_get_def)

theorem classification_only_plots_skip_witness:
  "plot_calibration demo_env demo_regression ''test'' [] =
     ([Log (PyStr ''Generating Calibration Plot'') [],
       Log (PyStr ''Calibration plot is for classification only'') []], Inr ()) \<and>
   plot_roc_curve demo_env demo_regression ''test'' [] =
     ([Log (PyStr ''Generating ROC Curves'') [],
       Log (PyStr ''ROC Curves are for classification only'') []], Inr ()) \<and>
   plot_boundary demo_env demo_regression ''test'' (PyInt 0) (PyInt 1) [] =
     ([Log (PyStr ''Generating Boundary Plots'') [],
       Log (PyStr ''Boundary Plots are for classification only'') []], Inr ())"
proof -
  have t: "specs demo_regression ''model_type'' = Some (PyGlobal ''ModelType.regression'')"
    by (simp add: demo_regression_def demo_model_def)
  have d: "PyGlobal ''ModelType.regression'' \<noteq> ModelType_classification"
    by (simp add: ModelType_classification_def)
  from classification_only_plots_skip [OF t d, of demo_env "''test''" "[]" "PyInt 0" "PyInt 1"]
  show ?thesis .
qed

end
